theory Spec2Isabelle
  imports Main "HOL-Library.Sublist"
begin

section \<open>Errors, logging and the world outside the program\<close>

text \<open>
  Go error values. \<open>ErrWrongPackageTypeForBuild\<close> and \<open>ErrWrongCallSequence\<close> are the
  sentinel errors of package build; \<open>io_EOF\<close> is the sentinel \<open>io.EOF\<close>;
  \<open>net_Error\<close> stands for any error whose dynamic type implements the interface
  \<open>net.Error\<close>; \<open>os_Error\<close> for any other error of the operating system or a library;
  \<open>Wrapped\<close> is \<open>fmt.Errorf\<close> with the verb \<open>%w\<close>, \<open>Errorf\<close> is \<open>fmt.Errorf\<close>
  without it.
\<close>

datatype go_error =
    ErrWrongPackageTypeForBuild
  | ErrWrongCallSequence
  | io_EOF
  | net_Error string
  | os_Error string
  | Wrapped string go_error
  | Errorf string

text \<open>\<open>errors.Is\<close>: the error, or one it wraps, is the target.\<close>

fun errors_Is :: "go_error \<Rightarrow> go_error \<Rightarrow> bool" where
  "errors_Is (Wrapped m e) t = (Wrapped m e = t \<or> errors_Is e t)"
| "errors_Is e t = (e = t)"

datatype log_level = InfoLevel | ErrorLevel | FatalLevel

datatype log_arg = ArgErr go_error | ArgStr string | ArgStrs "string list"

text \<open>A log entry: level, format string, arguments.\<close>

datatype log_entry = Log log_level string "log_arg list"

text \<open>
  \<open>exec.Cmd\<close>: \<open>Env = None\<close> is the nil slice (the child inherits the environment).
  \<open>Stdout\<close> and \<open>Stderr\<close>, which \<open>Build\<close> and \<open>Run\<close> always set to those of the calling
  process, are left out.
\<close>

record Cmd =
  Path :: string
  Args :: "string list"
  Dir :: string
  Env :: "string list option"

text \<open>How a command behaves once \<open>Start\<close> is called on it.\<close>

datatype outcome = StartFails go_error | WaitFails go_error | ExitsZero

text \<open>
  What the build package reads from and writes to outside itself: the result of
  \<open>os.Getwd\<close>, the environment of the calling process (\<open>os.Environ\<close>), the behaviour of
  the commands it starts, the commands on which \<open>Start\<close> was called so far (in order; a
  child process exists for those that do not fail to start) and the log written so far.
\<close>

record world =
  Getwd :: "go_error + string"
  Environ :: "string list"
  outcome_of :: "Cmd \<Rightarrow> outcome"
  started :: "Cmd list"
  logged :: "log_entry list"

definition log_write :: "log_level \<Rightarrow> string \<Rightarrow> log_arg list \<Rightarrow> world \<Rightarrow> world" where
  "log_write l f as w = w\<lparr>logged := logged w @ [Log l f as]\<rparr>"

section \<open>The path functions of the Go library used by the build package (Unix)\<close>

definition IsPathSeparator :: "char \<Rightarrow> bool" where
  "IsPathSeparator c = (c = CHR ''/'')"

text \<open>
  \<open>filepath.Split\<close>: \<open>i := len(path) - 1; for i >= 0 && !IsPathSeparator(path[i]) { i-- };
  return path[:i+1], path[i+1:]\<close>. The counter of \<open>Split_idx\<close> is \<open>i + 1\<close>.
\<close>

fun Split_idx :: "string \<Rightarrow> nat \<Rightarrow> nat" where
  "Split_idx path 0 = 0"
| "Split_idx path (Suc i) = (if IsPathSeparator (path ! i) then Suc i else Split_idx path i)"

definition filepath_Split :: "string \<Rightarrow> string \<times> string" where
  "filepath_Split path = (let k = Split_idx path (length path) in (take k path, drop k path))"

text \<open>
  \<open>strings.ReplaceAll\<close> for a non-empty \<open>old\<close>: the non-overlapping occurrences of
  \<open>old\<close>, from the left, are replaced. (The program only calls it with \<open>old = "_"\<close>; the
  case of an empty \<open>old\<close> is left unspecified.)
\<close>

function (sequential) strings_ReplaceAll :: "string \<Rightarrow> string \<Rightarrow> string \<Rightarrow> string" where
  "strings_ReplaceAll [] (c # cs) new = []"
| "strings_ReplaceAll (x # xs) (c # cs) new =
     (if take (length (c # cs)) (x # xs) = c # cs
      then new @ strings_ReplaceAll (drop (length cs) xs) (c # cs) new
      else x # strings_ReplaceAll xs (c # cs) new)"
| "strings_ReplaceAll s [] new = undefined"
  by pat_completeness auto
termination
  by (relation "measure (\<lambda>(s, old, new). length s)") auto

text \<open>\<open>strings.Join\<close>.\<close>

fun strings_Join :: "string list \<Rightarrow> string \<Rightarrow> string" where
  "strings_Join [] sep = []"
| "strings_Join [e] sep = e"
| "strings_Join (e # es) sep = e @ sep @ strings_Join es sep"

text \<open>
  \<open>filepath.Clean\<close>. The output buffer \<open>out\<close> holds the bytes written so far (its length
  is the index \<open>w\<close> of the source), the first argument of \<open>Clean_loop\<close> is the part of the
  path not yet read (from index \<open>r\<close> on). \<open>backtrack\<close> is the inner loop of the case of a
  \<open>..\<close> element: \<open>for out.w > dotdot && !IsPathSeparator(out.index(out.w)) { out.w-- }\<close>.
\<close>

fun backtrack :: "string \<Rightarrow> nat \<Rightarrow> nat \<Rightarrow> nat" where
  "backtrack buf dotdot w =
     (if w > dotdot \<and> \<not> IsPathSeparator (buf ! w) then backtrack buf dotdot (w - 1) else w)"

declare backtrack.simps [simp del]

function Clean_loop :: "bool \<Rightarrow> string \<Rightarrow> string \<Rightarrow> nat \<Rightarrow> string" where
  "Clean_loop rooted [] out dotdot = out"
| "Clean_loop rooted (c # p) out dotdot =
     (if IsPathSeparator c then Clean_loop rooted p out dotdot
      else if c = CHR ''.'' \<and> (p = [] \<or> IsPathSeparator (hd p)) then Clean_loop rooted p out dotdot
      else if c = CHR ''.'' \<and> hd p = CHR ''.'' \<and> (tl p = [] \<or> IsPathSeparator (hd (tl p))) then
        (if length out > dotdot
         then Clean_loop rooted (tl p) (take (backtrack out dotdot (length out - 1)) out) dotdot
         else if \<not> rooted
         then Clean_loop rooted (tl p)
                ((if length out > 0 then out @ ''/'' else out) @ ''..'')
                (length ((if length out > 0 then out @ ''/'' else out) @ ''..''))
         else Clean_loop rooted (tl p) out dotdot)
      else Clean_loop rooted (dropWhile (\<lambda>x. \<not> IsPathSeparator x) p)
             ((if rooted \<and> length out \<noteq> 1 \<or> \<not> rooted \<and> length out \<noteq> 0 then out @ ''/'' else out)
                @ c # takeWhile (\<lambda>x. \<not> IsPathSeparator x) p)
             dotdot)"
  by pat_completeness auto
termination
  by (relation "measure (\<lambda>(rooted, p, out, dotdot). length p)")
     (auto intro: le_imp_less_Suc length_dropWhile_le)

definition filepath_Clean :: "string \<Rightarrow> string" where
  "filepath_Clean path =
     (if path = [] then ''.''
      else let rooted = IsPathSeparator (hd path);
               out = (if rooted then Clean_loop True (tl path) ''/'' 1
                      else Clean_loop False path [] 0)
           in if out = [] then ''.'' else out)"

text \<open>\<open>filepath.Join\<close>: the elements from the first non-empty one on, joined and cleaned.\<close>

fun filepath_Join :: "string list \<Rightarrow> string" where
  "filepath_Join [] = []"
| "filepath_Join (e # es) =
     (if e \<noteq> [] then filepath_Clean (strings_Join (e # es) ''/'') else filepath_Join es)"

definition filepath_IsAbs :: "string \<Rightarrow> bool" where
  "filepath_IsAbs path = (take 1 path = ''/'')"

text \<open>\<open>filepath.Abs\<close>, which asks for the working directory when the path is relative.\<close>

definition filepath_Abs :: "string \<Rightarrow> world \<Rightarrow> go_error + string" where
  "filepath_Abs path w =
     (if filepath_IsAbs path then Inr (filepath_Clean path)
      else case Getwd w of
             Inl err \<Rightarrow> Inl err
           | Inr wd \<Rightarrow> Inr (filepath_Join [wd, path]))"

section \<open>Package build\<close>

typedecl cover_Package

record Build =
  Pkgs :: "string \<rightharpoonup> cover_Package"
  NewGOPATH :: string
  OriGOPATH :: string
  TmpDir :: string
  TmpWorkingDir :: string
  IsMod :: bool
  Root :: string
  Target :: string
  BuildFlags :: string
  Packages :: string
  GoRunExecFlag :: string
  GoRunArguments :: string

definition validatePackageForBuild :: "Build \<Rightarrow> bool" where
  "validatePackageForBuild b = (if Packages b = ''.'' then True else False)"

definition determineOutputDir :: "Build \<Rightarrow> string \<Rightarrow> world \<Rightarrow> (go_error + string) \<times> world" where
  "determineOutputDir b outputDir w =
     (if TmpDir b = [] then
        (Inl (Wrapped ''can only be called after Build.MvProjectsToTmp(): '' ErrWrongCallSequence),
         log_write ErrorLevel ''Can only be called after Build.MvProjectsToTmp(): %v''
           [ArgErr ErrWrongCallSequence] w)
      else case Getwd w of
        Inl err \<Rightarrow>
          (Inl (Wrapped ''cannot get current working directory: '' err),
           log_write ErrorLevel ''Cannot get current working directory: %v'' [ArgErr err] w)
      | Inr curWorkingDir \<Rightarrow>
          if outputDir = [] then
            (let last = snd (filepath_Split curWorkingDir);
                 last = (if IsMod b then strings_ReplaceAll last ''_'' ''-'' else last)
             in (Inr (filepath_Join [curWorkingDir, last]), w))
          else case filepath_Abs outputDir w of
            Inl err \<Rightarrow>
              (Inl (Wrapped (''fail to transform the path '' @ outputDir @ '' to absolute path: '') err),
               log_write ErrorLevel ''Fail to transform the path: %v to absolute path: %v''
                 [ArgStr outputDir, ArgErr err] w)
          | Inr abs_path \<Rightarrow> (Inr abs_path, w))"


text \<open>
  The struct literal of \<open>NewBuild\<close>: the two fields given, every other one at its zero
  value.
\<close>

definition Build_literal :: "string \<Rightarrow> string \<Rightarrow> Build" where
  "Build_literal buildflags packages =
     \<lparr>Pkgs = Map.empty, NewGOPATH = [], OriGOPATH = [], TmpDir = [], TmpWorkingDir = [],
      IsMod = False, Root = [], Target = [], BuildFlags = buildflags,
      Packages = packages, GoRunExecFlag = [], GoRunArguments = []\<rparr>"

text \<open>
  \<open>NewBuild\<close>. The method \<open>MvProjectsToTmp\<close> is not part of the sources at hand: it is a
  parameter here, a function that updates the descriptor and the world.
\<close>

definition NewBuild ::
  "(Build \<Rightarrow> world \<Rightarrow> Build \<times> world) \<Rightarrow> string \<Rightarrow> string \<Rightarrow> string \<Rightarrow> world
     \<Rightarrow> (go_error + Build) \<times> world" where
  "NewBuild MvProjectsToTmp buildflags packages outputDir w =
     (let b = Build_literal buildflags packages
      in if False = validatePackageForBuild b then
           (Inl ErrWrongPackageTypeForBuild,
            log_write ErrorLevel [] [ArgErr ErrWrongPackageTypeForBuild] w)
         else case MvProjectsToTmp b w of (b1, w1) \<Rightarrow>
           (case determineOutputDir b1 outputDir w1 of
              (Inl err, w2) \<Rightarrow> (Inl err, w2)
            | (Inr dir, w2) \<Rightarrow> (Inr (b1\<lparr>Target := dir\<rparr>), w2)))"

text \<open>\<open>exec.Command\<close> for a name with a path separator (no lookup in \<open>PATH\<close>).\<close>

definition exec_Command :: "string \<Rightarrow> string list \<Rightarrow> Cmd" where
  "exec_Command name arg = \<lparr>Path = name, Args = name # arg, Dir = [], Env = None\<rparr>"

definition cmd_Start :: "Cmd \<Rightarrow> world \<Rightarrow> go_error option \<times> world" where
  "cmd_Start cmd w =
     (case outcome_of w cmd of
        StartFails e \<Rightarrow> (Some e, w\<lparr>started := started w @ [cmd]\<rparr>)
      | _ \<Rightarrow> (None, w\<lparr>started := started w @ [cmd]\<rparr>))"

definition cmd_Wait :: "Cmd \<Rightarrow> world \<Rightarrow> go_error option \<times> world" where
  "cmd_Wait cmd w = (case outcome_of w cmd of WaitFails e \<Rightarrow> (Some e, w) | _ \<Rightarrow> (None, w))"

text \<open>How \<open>%v\<close> prints a slice of strings.\<close>

definition fmt_strs :: "string list \<Rightarrow> string" where
  "fmt_strs xs = ''['' @ strings_Join xs '' '' @ '']''"

text \<open>
  The result of a call that may end the whole process (\<open>Fatal\<close>: \<open>log.Fatalf\<close> writes
  its message and exits the process) or panic instead of returning.
\<close>

datatype 'a result = Returns 'a | Fatal | Panics

text \<open>
  \<open>Build\<close>. The receiver is a pointer: the descriptor as the call leaves it is part of the
  result, whatever the error.
\<close>

definition Build :: "Build \<Rightarrow> world \<Rightarrow> go_error option \<times> Build \<times> world" where
  "Build b0 w0 =
     (let w1 = log_write InfoLevel ''Go building in temp...'' [] w0;
          b = b0\<lparr>BuildFlags := BuildFlags b0 @ '' -o '' @ Target b0\<rparr>;
          cmd0 = exec_Command ''/bin/bash'' [''-c'', ''go build '' @ BuildFlags b @ '' '' @ Packages b];
          cmd1 = cmd0\<lparr>Dir := TmpWorkingDir b\<rparr>;
          cmd = (if NewGOPATH b \<noteq> [] then cmd1\<lparr>Env := Some (Environ w1 @ [''GOPATH='' @ NewGOPATH b])\<rparr>
                 else cmd1);
          w2 = log_write InfoLevel ''go build cmd is: %v'' [ArgStrs (Args cmd)] w1
      in case cmd_Start cmd w2 of
           (Some err, w3) \<Rightarrow>
             (Some (Wrapped (''fail to execute: '' @ fmt_strs (Args cmd) @ '': '') err), b,
              log_write ErrorLevel ''Fail to execute: %v. The error is: %v''
                [ArgStrs (Args cmd), ArgErr err] w3)
         | (None, w3) \<Rightarrow>
             (case cmd_Wait cmd w3 of
                (Some err, w4) \<Rightarrow>
                  (Some (Wrapped ''go build faileds: '' err), b,
                   log_write ErrorLevel ''go build failed. The error is: %v'' [ArgErr err] w4)
              | (None, w4) \<Rightarrow>
                  (None, b, log_write InfoLevel ''Go build exit successful.'' [] w4)))"

definition Run :: "Build \<Rightarrow> world \<Rightarrow> unit result \<times> world" where
  "Run b w0 =
     (let cmd0 = exec_Command ''/bin/bash''
                   [''-c'', ''go run '' @ BuildFlags b @ '' '' @ GoRunExecFlag b @ '' '' @ Packages b
                             @ '' '' @ GoRunArguments b];
          cmd1 = cmd0\<lparr>Dir := TmpWorkingDir b\<rparr>;
          cmd = (if NewGOPATH b \<noteq> [] then cmd1\<lparr>Env := Some (Environ w0 @ [''GOPATH='' @ NewGOPATH b])\<rparr>
                 else cmd1);
          w1 = log_write InfoLevel ''go build cmd is: %v'' [ArgStrs (Args cmd)] w0
      in case cmd_Start cmd w1 of
           (Some err, w2) \<Rightarrow>
             (Fatal, log_write FatalLevel ''Fail to start command: %v. The error is: %v''
                         [ArgStrs (Args cmd), ArgErr err] w2)
         | (None, w2) \<Rightarrow>
             (case cmd_Wait cmd w2 of
                (Some err, w3) \<Rightarrow>
                  (Fatal, log_write FatalLevel ''Fail to execute command: %v. The error is: %v''
                              [ArgStrs (Args cmd), ArgErr err] w3)
              | (None, w3) \<Rightarrow> (Returns (), w3)))"


text \<open>The command on which \<open>Build\<close>, and the one on which \<open>Run\<close>, calls \<open>Start\<close>.\<close>

definition Build_cmd :: "Build \<Rightarrow> world \<Rightarrow> Cmd" where
  "Build_cmd b w = last (started (snd (snd (Build b w))))"

definition Run_cmd :: "Build \<Rightarrow> world \<Rightarrow> Cmd" where
  "Run_cmd b w = last (started (snd (Run b w)))"

subsection \<open>The environment of a child process\<close>

text \<open>
  The documentation of \<open>exec.Cmd.Env\<close>: each entry is of the form \<open>key=value\<close>; if
  \<open>Env\<close> is nil, the new process uses the environment of the current process; if it holds
  duplicate keys, only the last value for each key is used.
\<close>

definition env_key :: "string \<Rightarrow> string option" where
  "env_key kv = (if CHR ''='' \<in> set kv then Some (takeWhile (\<lambda>c. c \<noteq> CHR ''='') kv) else None)"

definition env_value :: "string \<Rightarrow> string" where
  "env_value kv = tl (dropWhile (\<lambda>c. c \<noteq> CHR ''='') kv)"

fun env_lookup :: "string list \<Rightarrow> string \<Rightarrow> string option" where
  "env_lookup [] k = None"
| "env_lookup (kv # rest) k =
     (case env_lookup rest k of
        Some v \<Rightarrow> Some v
      | None \<Rightarrow> if env_key kv = Some k then Some (env_value kv) else None)"

definition child_environ :: "Cmd \<Rightarrow> world \<Rightarrow> string list" where
  "child_environ cmd w = (case Env cmd of None \<Rightarrow> Environ w | Some e \<Rightarrow> e)"

subsection \<open>The words of the specification, for comparison\<close>

text \<open>The last path segment of a directory: what follows its last separator.\<close>

definition last_segment :: "string \<Rightarrow> string" where
  "last_segment p = rev (takeWhile (\<lambda>c. c \<noteq> CHR ''/'') (rev p))"

text \<open>Every underscore replaced with a hyphen.\<close>

definition underscores_to_hyphens :: "string \<Rightarrow> string" where
  "underscores_to_hyphens s = map (\<lambda>c. if c = CHR ''_'' then CHR ''-'' else c) s"

text \<open>
  A cleaned absolute path: a separator before each of its segments, where a segment is
  not empty, is neither \<open>.\<close> nor \<open>..\<close> and holds no separator.
\<close>

definition plain_segment :: "string \<Rightarrow> bool" where
  "plain_segment s = (s \<noteq> [] \<and> s \<noteq> ''.'' \<and> s \<noteq> ''..'' \<and> CHR ''/'' \<notin> set s)"

definition abs_path :: "string list \<Rightarrow> string" where
  "abs_path segs = concat (map (\<lambda>s. CHR ''/'' # s) segs)"

section \<open>Package client\<close>

text \<open>
  Go's \<open>int\<close> on a 64-bit platform: the result of an addition or subtraction is reduced
  to the range from \<open>- 2 ^ 63\<close> to \<open>2 ^ 63 - 1\<close>. The length of a string always is in
  that range.
\<close>

definition int64 :: "int \<Rightarrow> int" where
  "int64 x = (x + 2 ^ 63) mod 2 ^ 64 - 2 ^ 63"

definition CoverAgentsListAPI :: string where
  "CoverAgentsListAPI = ''/v2/rpcagents''"

text \<open>The struct \<open>client\<close> (its \<open>*http.Client\<close> is what \<open>replies\<close> below describes).\<close>

record client =
  Host :: string

record gocCoveredAgent =
  Id_agent :: string
  RemoteIP :: string
  Hostname :: string
  CmdLine :: string
  Pid :: string

text \<open>
  What one call of \<open>do\<close> meets: \<open>http.NewRequest\<close> fails, \<open>client.Do\<close> fails,
  \<open>ioutil.ReadAll\<close> of the body fails, or the body is read.
\<close>

datatype reply =
    NewRequestFails go_error
  | DoFails go_error
  | ReadAllFails go_error
  | ReadBody string

text \<open>
  What the client package reads from and writes to outside itself: what the successive
  calls of \<open>do\<close> meet (by number, from 0), the calls of \<open>do\<close> made so far (method and URL),
  the result of \<open>term.GetSize\<close> on the standard input (width and height) and the fatal
  messages written.
\<close>

record net_world =
  replies :: "nat \<Rightarrow> reply"
  attempts :: "(string \<times> string) list"
  GetSize :: "go_error + int \<times> int"
  fatal_log :: "log_entry list"

text \<open>\<open>do\<close>. Its callers here ignore the \<open>*http.Response\<close>, which is left out of the result.\<close>

definition client_do ::
  "client \<Rightarrow> string \<Rightarrow> string \<Rightarrow> string \<Rightarrow> string option \<Rightarrow> net_world
     \<Rightarrow> (go_error + string) \<times> net_world" where
  "client_do c method url contentType body w =
     (let w' = w\<lparr>attempts := attempts w @ [(method, url)]\<rparr>
      in case replies w (length (attempts w)) of
           NewRequestFails err \<Rightarrow> (Inl err, w')
         | DoFails err \<Rightarrow> (Inl err, w')
         | ReadAllFails err \<Rightarrow> (Inl err, w')
         | ReadBody responseBody \<Rightarrow> (Inr responseBody, w'))"

definition isNetworkError :: "go_error \<Rightarrow> bool" where
  "isNetworkError err =
     (if err = io_EOF then True
      else case err of net_Error m \<Rightarrow> True | _ \<Rightarrow> False)"

text \<open>The slice expression \<open>s[:n]\<close>, which panics when \<open>n\<close> is out of range.\<close>

definition slice_to :: "string \<Rightarrow> int \<Rightarrow> string result" where
  "slice_to s n = (if n < 0 \<or> int (length s) < n then Panics else Returns (take (nat n) s))"

definition getSimpleCmdLine :: "int \<Rightarrow> string \<Rightarrow> net_world \<Rightarrow> string result" where
  "getSimpleCmdLine preLen cmdLine w =
     (let pathLen = int (length cmdLine);
          width = (case GetSize w of
                     Inl err \<Rightarrow> int64 (16 + preLen)
                   | Inr (width, height) \<Rightarrow>
                       if width \<le> int64 (preLen + 16) then int64 (16 + preLen) else width)
      in if pathLen > int64 (width - preLen) then slice_to cmdLine (int64 (width - preLen))
         else Returns cmdLine)"

text \<open>The table: its header and the rows appended to it.\<close>

record table =
  header :: "string list"
  rows :: "string list list"

text \<open>The body of the loop over the agents: the row of one agent.\<close>

definition agent_row :: "bool \<Rightarrow> gocCoveredAgent \<Rightarrow> net_world \<Rightarrow> string list result" where
  "agent_row wide agent w =
     (if wide then
        Returns [Id_agent agent, RemoteIP agent, Hostname agent, Pid agent, CmdLine agent]
      else
        let preLen = int64 (int64 (int (length (Id_agent agent)) + int (length (RemoteIP agent))) + 9)
        in case getSimpleCmdLine preLen (CmdLine agent) w of
             Returns s \<Rightarrow> Returns [Id_agent agent, RemoteIP agent, s]
           | Fatal \<Rightarrow> Fatal
           | Panics \<Rightarrow> Panics)"

fun agent_rows :: "bool \<Rightarrow> gocCoveredAgent list \<Rightarrow> net_world \<Rightarrow> string list list result" where
  "agent_rows wide [] w = Returns []"
| "agent_rows wide (agent # items) w =
     (case agent_row wide agent w of
        Returns r \<Rightarrow>
          (case agent_rows wide items w of
             Returns rs \<Rightarrow> Returns (r # rs)
           | Fatal \<Rightarrow> Fatal
           | Panics \<Rightarrow> Panics)
      | Fatal \<Rightarrow> Fatal
      | Panics \<Rightarrow> Panics)"

definition fatal_write :: "string \<Rightarrow> log_arg list \<Rightarrow> net_world \<Rightarrow> net_world" where
  "fatal_write f as w = w\<lparr>fatal_log := fatal_log w @ [Log FatalLevel f as]\<rparr>"

text \<open>
  \<open>ListAgents\<close>. \<open>json.Unmarshal\<close> into \<open>gocListAgents\<close> is a parameter: from the body to
  the items, or an error.
\<close>

definition ListAgents ::
  "(string \<Rightarrow> go_error + gocCoveredAgent list) \<Rightarrow> client \<Rightarrow> bool \<Rightarrow> net_world
     \<Rightarrow> table result \<times> net_world" where
  "ListAgents json_Unmarshal c wide w0 =
     (let u = Host c @ CoverAgentsListAPI
      in case client_do c ''GET'' u [] None w0 of (r1, w1) \<Rightarrow>
         (case (case r1 of
                  Inl err \<Rightarrow> if isNetworkError err then client_do c ''GET'' u [] None w1
                              else (r1, w1)
                | Inr body \<Rightarrow> (r1, w1)) of
            (Inl err, w2) \<Rightarrow> (Fatal, fatal_write ''goc list failed: %v'' [ArgErr err] w2)
          | (Inr body, w2) \<Rightarrow>
              (case json_Unmarshal body of
                 Inl err \<Rightarrow>
                   (Fatal, fatal_write ''goc list failed: json unmarshal failed: %v'' [ArgErr err] w2)
               | Inr items \<Rightarrow>
                   (case agent_rows wide items w2 of
                      Returns rs \<Rightarrow>
                        (Returns \<lparr>header = (if wide then [''ID'', ''REMOTEIP'', ''HOSTNAME'', ''PID'', ''CMD'']
                                             else [''ID'', ''REMOTEIP'', ''CMD'']),
                                  rows = rs\<rparr>, w2)
                    | Fatal \<Rightarrow> (Fatal, w2)
                    | Panics \<Rightarrow> (Panics, w2)))))"


subsection \<open>Notions for the statements on the client\<close>

text \<open>The values of Go's \<open>int\<close>, and a terminal width that is one.\<close>

definition is_int64 :: "int \<Rightarrow> bool" where
  "is_int64 x = (- (2 ^ 63) \<le> x \<and> x < 2 ^ 63)"

definition width_ok :: "net_world \<Rightarrow> bool" where
  "width_ok w = (case GetSize w of Inl err \<Rightarrow> True | Inr (width, height) \<Rightarrow> is_int64 width)"

text \<open>
  The width to which the command line is clipped, in the words of the source's comment
  (show at least 16 characters): the detected width less the prefix, and never less than 16.
\<close>

definition clip_width :: "int \<Rightarrow> net_world \<Rightarrow> int" where
  "clip_width preLen w =
     (case GetSize w of
        Inl err \<Rightarrow> 16
      | Inr (width, height) \<Rightarrow> if width \<le> preLen + 16 then 16 else width - preLen)"

text \<open>The error with which a call of \<open>do\<close> fails, if it does.\<close>

definition reply_error :: "reply \<Rightarrow> go_error option" where
  "reply_error r =
     (case r of NewRequestFails e \<Rightarrow> Some e | DoFails e \<Rightarrow> Some e | ReadAllFails e \<Rightarrow> Some e
      | ReadBody b \<Rightarrow> None)"

section \<open>Example descriptors and worlds\<close>

text \<open>
  A legacy-layout project under the environment root \<open>/home/u/go\<close> and a module-layout
  project in the directory \<open>my_app\<close>, both after relocation.
\<close>

definition legacy_world :: world where
  "legacy_world = \<lparr>Getwd = Inr ''/home/u/go/src/myapp'',
                    Environ = [''HOME=/home/u'', ''GOPATH=/home/u/go''],
                    outcome_of = (\<lambda>c. ExitsZero), started = [], logged = []\<rparr>"

definition legacy_build :: Build where
  "legacy_build = \<lparr>Pkgs = Map.empty, NewGOPATH = ''/tmp/goc-build-1'', OriGOPATH = ''/home/u/go'',
                    TmpDir = ''/tmp/goc-build-1'', TmpWorkingDir = ''/tmp/goc-build-1/src/myapp'',
                    IsMod = False, Root = ''/home/u/go'', Target = ''/out/app'',
                    BuildFlags = ''-v'', Packages = ''.'', GoRunExecFlag = [], GoRunArguments = []\<rparr>"

definition module_world :: world where
  "module_world = \<lparr>Getwd = Inr ''/home/u/my_app'',
                    Environ = [''HOME=/home/u'', ''GOPATH=/home/u/go''],
                    outcome_of = (\<lambda>c. StartFails (os_Error ''fork/exec /bin/bash: no such file or directory'')),
                    started = [], logged = []\<rparr>"

definition module_build :: Build where
  "module_build = \<lparr>Pkgs = Map.empty, NewGOPATH = [], OriGOPATH = [],
                    TmpDir = ''/tmp/goc-build-2'', TmpWorkingDir = ''/tmp/goc-build-2/my_app'',
                    IsMod = True, Root = ''/home/u/my_app'', Target = ''/home/u/my_app/my-app'',
                    BuildFlags = [], Packages = ''.'', GoRunExecFlag = [], GoRunArguments = []\<rparr>"

text \<open>
  A relocation for the examples: the module project is placed in a temporary directory
  and the descriptor records it.
\<close>

definition relocate_module :: "Build \<Rightarrow> world \<Rightarrow> Build \<times> world" where
  "relocate_module b w =
     (b\<lparr>TmpDir := ''/tmp/goc-build-2'', TmpWorkingDir := ''/tmp/goc-build-2/my_app'',
        IsMod := True, Root := ''/home/u/my_app''\<rparr>, w)"

text \<open>A client, an agent and three decoders of the response body, for the examples.\<close>

definition example_client :: client where
  "example_client = \<lparr>Host = ''http://127.0.0.1:7777''\<rparr>"

definition example_agent :: gocCoveredAgent where
  "example_agent = \<lparr>Id_agent = ''1'', RemoteIP = ''10.0.0.1'', Hostname = ''h1'',
                     CmdLine = ''/bin/foo --flag=verylongvalue'', Pid = ''99''\<rparr>"

definition decode_one :: "string \<Rightarrow> go_error + gocCoveredAgent list" where
  "decode_one body = Inr [example_agent]"

definition decode_fails :: "string \<Rightarrow> go_error + gocCoveredAgent list" where
  "decode_fails body = Inl (os_Error ''unexpected end of JSON input'')"

text \<open>A terminal of 20 columns; the first body read is cut by a reset of the connection.\<close>

definition narrow_terminal :: net_world where
  "narrow_terminal =
     \<lparr>replies = (\<lambda>n. if n = 0 then ReadAllFails (net_Error ''read: connection reset by peer'')
                      else ReadBody ''{}''),
      attempts = [], GetSize = Inr (20, 24), fatal_log = []\<rparr>"

text \<open>A terminal of 80 columns; the body ends early (\<open>io.ErrUnexpectedEOF\<close>).\<close>

definition wide_terminal :: net_world where
  "wide_terminal =
     \<lparr>replies = (\<lambda>n. ReadAllFails (os_Error ''unexpected EOF'')),
      attempts = [], GetSize = Inr (80, 24), fatal_log = []\<rparr>"

text \<open>No terminal; the server answers.\<close>

definition no_terminal :: net_world where
  "no_terminal =
     \<lparr>replies = (\<lambda>n. ReadBody ''{}''),
      attempts = [], GetSize = Inl (os_Error ''inappropriate ioctl for device''), fatal_log = []\<rparr>"

definition decode_none :: "string \<Rightarrow> go_error + gocCoveredAgent list" where
  "decode_none body = Inr []"

section \<open>Output-path resolution\<close>

lemma Split_idx_le: "Split_idx p k \<le> k"
  by (induction k) auto

lemma Split_idx_drop:
  "k \<le> length p \<Longrightarrow>
     drop (Split_idx p k) (take k p) = rev (takeWhile (\<lambda>c. \<not> IsPathSeparator c) (rev (take k p)))"
  by (induction k) (auto simp: take_Suc_conv_app_nth Split_idx_le)

lemma snd_Split: "snd (filepath_Split p) = last_segment p"
  using Split_idx_drop [of "length p" p]
  by (simp add: filepath_Split_def last_segment_def IsPathSeparator_def Let_def)

lemma ReplaceAll_underscore: "strings_ReplaceAll s ''_'' ''-'' = underscores_to_hyphens s"
  by (induction s) (auto simp: underscores_to_hyphens_def)

lemma determineOutputDir_default:
  assumes "TmpDir b \<noteq> []" and "Getwd w = Inr cwd"
  shows "determineOutputDir b [] w =
     (Inr (filepath_Join [cwd, if IsMod b then underscores_to_hyphens (last_segment cwd)
                               else last_segment cwd]), w)"
  using assms
  by (simp add: determineOutputDir_def snd_Split ReplaceAll_underscore Let_def del: filepath_Join.simps)

text \<open>\<open>filepath.Clean\<close> leaves a cleaned absolute path as it is.\<close>

lemma takeWhile_segment:
  assumes "CHR ''/'' \<notin> set s" and "r = [] \<or> hd r = CHR ''/''"
  shows "takeWhile (\<lambda>x. \<not> IsPathSeparator x) (s @ r) = s"
    and "dropWhile (\<lambda>x. \<not> IsPathSeparator x) (s @ r) = r"
proof -
  have a: "\<forall>x\<in>set s. \<not> IsPathSeparator x"
    using assms(1) by (auto simp: IsPathSeparator_def)
  have b: "takeWhile (\<lambda>x. \<not> IsPathSeparator x) r = []" "dropWhile (\<lambda>x. \<not> IsPathSeparator x) r = r"
    using assms(2) by (cases r; simp add: IsPathSeparator_def)+
  show "takeWhile (\<lambda>x. \<not> IsPathSeparator x) (s @ r) = s"
    using a b by (simp add: takeWhile_append2)
  show "dropWhile (\<lambda>x. \<not> IsPathSeparator x) (s @ r) = r"
    using a b by (simp add: dropWhile_append2)
qed

lemma Clean_loop_segment:
  assumes "plain_segment s" and "r = [] \<or> hd r = CHR ''/''"
  shows "Clean_loop True (s @ r) out dotdot =
           Clean_loop True r ((if length out \<noteq> 1 then out @ ''/'' else out) @ s) dotdot"
proof -
  obtain c s' where s: "s = c # s'"
    using assms(1) by (cases s) (auto simp: plain_segment_def)
  have n: "CHR ''/'' \<notin> set s'" "c \<noteq> CHR ''/''"
    using assms(1) s by (auto simp: plain_segment_def)
  have c1: "\<not> IsPathSeparator c" using n by (simp add: IsPathSeparator_def)
  have c2: "\<not> (c = CHR ''.'' \<and> (s' @ r = [] \<or> IsPathSeparator (hd (s' @ r))))"
    using assms(1) s n by (cases s') (auto simp: plain_segment_def IsPathSeparator_def)
  have c3: "\<not> (c = CHR ''.'' \<and> hd (s' @ r) = CHR ''.'' \<and>
               (tl (s' @ r) = [] \<or> IsPathSeparator (hd (tl (s' @ r)))))"
  proof (cases s')
    case Nil
    with c2 assms(2) show ?thesis by (auto simp: IsPathSeparator_def)
  next
    case (Cons d s'')
    with assms(1) s n show ?thesis
      by (cases s'') (auto simp: plain_segment_def IsPathSeparator_def)
  qed
  have t: "takeWhile (\<lambda>x. \<not> IsPathSeparator x) (s' @ r) = s'"
          "dropWhile (\<lambda>x. \<not> IsPathSeparator x) (s' @ r) = r"
    using takeWhile_segment [OF n(1) assms(2)] by simp_all
  show ?thesis
    unfolding s append_Cons
    by (subst Clean_loop.simps) (simp only: c1 c2 c3 t if_False, simp)
qed

lemma Clean_loop_segments:
  assumes "list_all plain_segment ss" and "length out \<noteq> 1"
  shows "Clean_loop True (abs_path ss) out dotdot = out @ abs_path ss"
  using assms
proof (induction ss arbitrary: out)
  case Nil
  then show ?case by (simp add: abs_path_def)
next
  case (Cons t ss)
  have r: "abs_path ss = [] \<or> hd (abs_path ss) = CHR ''/''"
    by (cases ss) (simp_all add: abs_path_def)
  have "Clean_loop True (abs_path (t # ss)) out dotdot = Clean_loop True (t @ abs_path ss) out dotdot"
    by (simp add: abs_path_def IsPathSeparator_def)
  also have "\<dots> = Clean_loop True (abs_path ss) (out @ ''/'' @ t) dotdot"
    using Cons.prems r by (simp add: Clean_loop_segment)
  also have "\<dots> = (out @ ''/'' @ t) @ abs_path ss"
    using Cons.prems by (intro Cons.IH) (auto simp: plain_segment_def)
  finally show ?case by (simp add: abs_path_def)
qed

lemma Clean_abs_path:
  assumes "list_all plain_segment ss" and "ss \<noteq> []"
  shows "filepath_Clean (abs_path ss) = abs_path ss"
proof -
  obtain t ts where ss: "ss = t # ts" using assms(2) by (cases ss) auto
  have r: "abs_path ts = [] \<or> hd (abs_path ts) = CHR ''/''"
    by (cases ts) (simp_all add: abs_path_def)
  have p: "plain_segment t" "list_all plain_segment ts" using assms(1) ss by simp_all
  have "Clean_loop True (t @ abs_path ts) ''/'' 1 = Clean_loop True (abs_path ts) (''/'' @ t) 1"
    using Clean_loop_segment [OF p(1) r, of "''/''" 1] by simp
  also have "\<dots> = (''/'' @ t) @ abs_path ts"
    using p by (intro Clean_loop_segments) (auto simp: plain_segment_def)
  finally show ?thesis
    by (simp add: filepath_Clean_def ss abs_path_def IsPathSeparator_def)
qed

lemma Join_abs_path:
  assumes "list_all plain_segment ss" and "ss \<noteq> []" and "plain_segment name"
  shows "filepath_Join [abs_path ss, name] = abs_path ss @ ''/'' @ name"
proof -
  have ne: "abs_path ss \<noteq> []"
    using assms(2) by (cases ss) (simp_all add: abs_path_def)
  have "filepath_Join [abs_path ss, name] = filepath_Clean (abs_path (ss @ [name]))"
    using ne by (simp add: abs_path_def)
  also have "\<dots> = abs_path (ss @ [name])"
    using assms by (intro Clean_abs_path) simp_all
  finally show ?thesis by (simp add: abs_path_def)
qed

lemma last_segment_abs_path:
  assumes "list_all plain_segment ss" and "ss \<noteq> []"
  shows "last_segment (abs_path ss) = last ss"
proof -
  obtain ts t where ss: "ss = ts @ [t]" using assms(2) by (metis rev_exhaust)
  have n: "CHR ''/'' \<notin> set t"
    using assms(1) ss by (auto simp: plain_segment_def)
  have "takeWhile (\<lambda>c. c \<noteq> CHR ''/'') (rev t @ CHR ''/'' # rev (abs_path ts)) = rev t"
    using n by (subst takeWhile_append2) auto
  then show ?thesis
    by (simp add: last_segment_def ss abs_path_def)
qed

lemma plain_underscores_to_hyphens:
  "plain_segment s \<Longrightarrow> plain_segment (underscores_to_hyphens s)"
  by (auto simp: plain_segment_def underscores_to_hyphens_def map_eq_Cons_conv split: if_splits)


lemma determineOutputDir_abs_path:
  assumes "TmpDir b \<noteq> []" and "Getwd w = Inr (abs_path segs)"
    and "segs \<noteq> []" and "list_all plain_segment segs"
  shows "fst (determineOutputDir b [] w) =
           Inr (abs_path segs @ ''/'' @ (if IsMod b then underscores_to_hyphens (last segs) else last segs))"
proof -
  have p: "plain_segment (last segs)"
    using assms(3,4) by (simp add: list_all_iff)
  then have q: "plain_segment (underscores_to_hyphens (last segs))"
    by (rule plain_underscores_to_hyphens)
  show ?thesis
    using assms p q
    by (simp add: determineOutputDir_default last_segment_abs_path Join_abs_path
          del: filepath_Join.simps)
qed

text \<open>
  Claim C1. For a descriptor with a non-empty \<open>TmpDir\<close> and an empty explicit output
  directory, where \<open>os.Getwd\<close> yields the working directory \<open>cwd\<close>, the resolved
  output path is \<open>cwd\<close> joined (\<open>filepath.Join\<close>) with its last path segment; in a
  module project every underscore of that segment is first replaced with a hyphen, in a
  legacy project the segment is left as it is. When \<open>cwd\<close> is a cleaned absolute path,
  the result is \<open>cwd\<close>, a separator and that name: for the legacy layout and the working
  directory \<open>R/src/myapp\<close> it is \<open>R/src/myapp/myapp\<close>.
\<close>

theorem default_output_path:
  assumes "TmpDir b \<noteq> []" and "Getwd w = Inr cwd"
  shows "fst (determineOutputDir b [] w) =
           Inr (filepath_Join [cwd, if IsMod b then underscores_to_hyphens (last_segment cwd)
                                    else last_segment cwd])
     \<and> (cwd = abs_path segs \<and> segs \<noteq> [] \<and> list_all plain_segment segs \<longrightarrow>
          last_segment cwd = last segs \<and>
          fst (determineOutputDir b [] w) =
            Inr (cwd @ ''/'' @ (if IsMod b then underscores_to_hyphens (last segs) else last segs)))
     \<and> (\<not> IsMod b \<and> list_all plain_segment R \<and> cwd = abs_path (R @ [''src'', ''myapp'']) \<longrightarrow>
          fst (determineOutputDir b [] w) = Inr (abs_path (R @ [''src'', ''myapp'', ''myapp''])))"
proof -
  have 1: "fst (determineOutputDir b [] w) =
             Inr (filepath_Join [cwd, if IsMod b then underscores_to_hyphens (last_segment cwd)
                                      else last_segment cwd])"
    using assms by (simp add: determineOutputDir_default del: filepath_Join.simps)
  have 2: "last_segment cwd = last segs \<and>
           fst (determineOutputDir b [] w) =
             Inr (cwd @ ''/'' @ (if IsMod b then underscores_to_hyphens (last segs) else last segs))"
    if "cwd = abs_path segs" "segs \<noteq> []" "list_all plain_segment segs" for segs
    using that assms determineOutputDir_abs_path [of b w segs]
    by (simp add: last_segment_abs_path)
  have 3: "fst (determineOutputDir b [] w) = Inr (abs_path (R @ [''src'', ''myapp'', ''myapp'']))"
    if "\<not> IsMod b" "list_all plain_segment R" "cwd = abs_path (R @ [''src'', ''myapp''])"
  proof -
    have "list_all plain_segment (R @ [''src'', ''myapp''])"
      using that(2) by (simp add: plain_segment_def)
    with that(1,3) 2 [of "R @ [''src'', ''myapp'']"] show ?thesis
      by (simp add: abs_path_def)
  qed
  from 1 2 3 show ?thesis by blast
qed

theorem default_output_path_witness:
  "TmpDir legacy_build \<noteq> [] \<and> Getwd legacy_world = Inr ''/home/u/go/src/myapp'' \<and>
   \<not> IsMod legacy_build \<and> list_all plain_segment [''home'', ''u'', ''go''] \<and>
   abs_path ([''home'', ''u'', ''go''] @ [''src'', ''myapp'']) = ''/home/u/go/src/myapp'' \<and>
   fst (determineOutputDir legacy_build [] legacy_world) = Inr ''/home/u/go/src/myapp/myapp''"
proof -
  have t: "TmpDir legacy_build \<noteq> []" and m: "\<not> IsMod legacy_build"
    by (simp_all add: legacy_build_def)
  have g: "Getwd legacy_world = Inr ''/home/u/go/src/myapp''"
    by (simp add: legacy_world_def)
  have "fst (determineOutputDir legacy_build [] legacy_world) = Inr ''/home/u/go/src/myapp/myapp''"
    using default_output_path [OF t g, where R = "[''home'', ''u'', ''go'']", THEN conjunct2, THEN conjunct2] m
    by (simp add: abs_path_def plain_segment_def)
  with m t g show ?thesis
    by (simp add: abs_path_def plain_segment_def)
qed

text \<open>
  Claim C2 as it was stated fails: in \<open>/home/u/my_app\<close> the resolved path is
  \<open>/home/u/my_app/my-app\<close>, not the parent \<open>/home/u\<close> joined with \<open>my-app\<close>.
\<close>

theorem module_output_path_counterexample:
  "fst (determineOutputDir module_build [] module_world) = Inr ''/home/u/my_app/my-app'' \<and>
   fst (determineOutputDir module_build [] module_world) \<noteq> Inr (filepath_Join [''/home/u'', ''my-app''])"
  by code_simp

text \<open>
  Claim C2, as amended. For a module-layout project whose working directory has the last
  segment \<open>my_app\<close>, with no explicit output directory, the resolved output path is the
  working directory itself (not its parent) joined with the normalized name \<open>my-app\<close>:
  for a cleaned absolute working directory \<open>cwd\<close> it is \<open>cwd/my-app\<close>.
\<close>

theorem module_output_path:
  assumes "TmpDir b \<noteq> []" and "IsMod b" and "Getwd w = Inr cwd" and "last_segment cwd = ''my_app''"
  shows "fst (determineOutputDir b [] w) = Inr (filepath_Join [cwd, ''my-app''])
     \<and> (cwd = abs_path segs \<and> segs \<noteq> [] \<and> list_all plain_segment segs \<longrightarrow>
          fst (determineOutputDir b [] w) = Inr (cwd @ ''/my-app''))"
proof -
  have 1: "fst (determineOutputDir b [] w) = Inr (filepath_Join [cwd, ''my-app''])"
    using assms
    by (simp add: determineOutputDir_default underscores_to_hyphens_def del: filepath_Join.simps)
  have 2: "fst (determineOutputDir b [] w) = Inr (cwd @ ''/my-app'')"
    if "cwd = abs_path segs" "segs \<noteq> []" "list_all plain_segment segs"
  proof -
    have "last segs = ''my_app''"
      using that assms(4) by (simp add: last_segment_abs_path)
    with that assms determineOutputDir_abs_path [of b w segs] show ?thesis
      by (simp add: underscores_to_hyphens_def)
  qed
  from 1 2 show ?thesis by blast
qed

theorem module_output_path_witness:
  "TmpDir module_build \<noteq> [] \<and> IsMod module_build \<and> Getwd module_world = Inr ''/home/u/my_app'' \<and>
   last_segment ''/home/u/my_app'' = ''my_app'' \<and>
   abs_path [''home'', ''u'', ''my_app''] = ''/home/u/my_app'' \<and>
   list_all plain_segment [''home'', ''u'', ''my_app''] \<and>
   fst (determineOutputDir module_build [] module_world) = Inr ''/home/u/my_app/my-app''"
proof -
  have t: "TmpDir module_build \<noteq> []" and m: "IsMod module_build"
    by (simp_all add: module_build_def)
  have g: "Getwd module_world = Inr ''/home/u/my_app''"
    by (simp add: module_world_def)
  have l: "last_segment ''/home/u/my_app'' = ''my_app''"
    by code_simp
  have "fst (determineOutputDir module_build [] module_world) = Inr ''/home/u/my_app/my-app''"
    using module_output_path [OF t m g l, where segs = "[''home'', ''u'', ''my_app'']", THEN conjunct2]
    by (simp add: abs_path_def plain_segment_def)
  with t m g l show ?thesis
    by (simp add: abs_path_def plain_segment_def)
qed

text \<open>
  Claim C4. Whatever the explicit output directory is, empty or not, if \<open>TmpDir\<close> is
  empty then output-path resolution fails, with an error that wraps
  \<open>ErrWrongCallSequence\<close>, and returns no path.
\<close>

theorem call_sequence_violation:
  assumes "TmpDir b = []"
  shows "fst (determineOutputDir b outputDir w) =
           Inl (Wrapped ''can only be called after Build.MvProjectsToTmp(): '' ErrWrongCallSequence)
         \<and> errors_Is (Wrapped ''can only be called after Build.MvProjectsToTmp(): '' ErrWrongCallSequence)
              ErrWrongCallSequence"
  using assms by (simp add: determineOutputDir_def)

theorem call_sequence_violation_witness:
  "TmpDir (legacy_build\<lparr>TmpDir := []\<rparr>) = [] \<and>
   fst (determineOutputDir (legacy_build\<lparr>TmpDir := []\<rparr>) ''/out'' legacy_world) =
     Inl (Wrapped ''can only be called after Build.MvProjectsToTmp(): '' ErrWrongCallSequence) \<and>
   fst (determineOutputDir (legacy_build\<lparr>TmpDir := []\<rparr>) [] legacy_world) =
     Inl (Wrapped ''can only be called after Build.MvProjectsToTmp(): '' ErrWrongCallSequence)"
  using call_sequence_violation [of "legacy_build\<lparr>TmpDir := []\<rparr>" "''/out''" legacy_world]
        call_sequence_violation [of "legacy_build\<lparr>TmpDir := []\<rparr>" "[]" legacy_world]
  by simp


section \<open>Lemmas on starting commands\<close>

lemma snd_cmd_Start: "snd (cmd_Start c w) = w\<lparr>started := started w @ [c]\<rparr>"
  by (simp add: cmd_Start_def split: outcome.splits)

lemma fst_cmd_Start:
  "fst (cmd_Start c w) = (case outcome_of w c of StartFails e \<Rightarrow> Some e | WaitFails e \<Rightarrow> None | ExitsZero \<Rightarrow> None)"
  by (simp add: cmd_Start_def split: outcome.splits)

lemma snd_cmd_Wait: "snd (cmd_Wait c w) = w"
  by (simp add: cmd_Wait_def split: outcome.splits)

lemma fst_cmd_Wait:
  "fst (cmd_Wait c w) = (case outcome_of w c of WaitFails e \<Rightarrow> Some e | StartFails e \<Rightarrow> None | ExitsZero \<Rightarrow> None)"
  by (simp add: cmd_Wait_def split: outcome.splits)

lemma log_write_proj:
  "started (log_write l f as w) = started w"
  "Environ (log_write l f as w) = Environ w"
  "outcome_of (log_write l f as w) = outcome_of w"
  "Getwd (log_write l f as w) = Getwd w"
  by (simp_all add: log_write_def)

lemmas run_simps = Let_def case_prod_beta snd_cmd_Start fst_cmd_Start snd_cmd_Wait fst_cmd_Wait
  exec_Command_def log_write_proj

lemma Build_started: "started (snd (snd (Build b w))) = started w @
   [\<lparr>Path = ''/bin/bash'',
     Args = [''/bin/bash'', ''-c'', ''go build '' @ BuildFlags b @ '' -o '' @ Target b @ '' '' @ Packages b],
     Dir = TmpWorkingDir b,
     Env = (if NewGOPATH b \<noteq> [] then Some (Environ w @ [''GOPATH='' @ NewGOPATH b]) else None)\<rparr>]"
  by (simp add: Build_def run_simps split: option.splits outcome.splits)

lemma Run_started: "started (snd (Run b w)) = started w @
   [\<lparr>Path = ''/bin/bash'',
     Args = [''/bin/bash'', ''-c'', ''go run '' @ BuildFlags b @ '' '' @ GoRunExecFlag b @ '' '' @ Packages b
                             @ '' '' @ GoRunArguments b],
     Dir = TmpWorkingDir b,
     Env = (if NewGOPATH b \<noteq> [] then Some (Environ w @ [''GOPATH='' @ NewGOPATH b]) else None)\<rparr>]"
  by (simp add: Run_def run_simps split: option.splits outcome.splits)

lemma Build_cmd_eq: "Build_cmd b w =
   \<lparr>Path = ''/bin/bash'',
     Args = [''/bin/bash'', ''-c'', ''go build '' @ BuildFlags b @ '' -o '' @ Target b @ '' '' @ Packages b],
     Dir = TmpWorkingDir b,
     Env = (if NewGOPATH b \<noteq> [] then Some (Environ w @ [''GOPATH='' @ NewGOPATH b]) else None)\<rparr>"
  unfolding Build_cmd_def Build_started by simp

lemma Run_cmd_eq: "Run_cmd b w =
   \<lparr>Path = ''/bin/bash'',
     Args = [''/bin/bash'', ''-c'', ''go run '' @ BuildFlags b @ '' '' @ GoRunExecFlag b @ '' '' @ Packages b
                             @ '' '' @ GoRunArguments b],
     Dir = TmpWorkingDir b,
     Env = (if NewGOPATH b \<noteq> [] then Some (Environ w @ [''GOPATH='' @ NewGOPATH b]) else None)\<rparr>"
  unfolding Run_cmd_def Run_started by simp

lemma Build_Environ: "Environ (snd (snd (Build b w))) = Environ w"
  by (simp add: Build_def run_simps split: option.splits outcome.splits)

lemma Run_Environ: "Environ (snd (Run b w)) = Environ w"
  by (simp add: Run_def run_simps split: option.splits outcome.splits)

lemma Build_descriptor: "fst (snd (Build b w)) = b\<lparr>BuildFlags := BuildFlags b @ '' -o '' @ Target b\<rparr>"
  by (simp add: Build_def run_simps split: option.splits outcome.splits)

lemma env_lookup_append_GOPATH:
  "env_lookup (e @ [''GOPATH='' @ v]) k = (if k = ''GOPATH'' then Some v else env_lookup e k)"
  by (induction e) (auto simp: env_key_def env_value_def split: option.splits)

lemmas env_lookup_append_GOPATH_Cons = env_lookup_append_GOPATH [unfolded append.simps]




lemma errors_Is_Wrapped_sentinel: "errors_Is (Wrapped m e) e"
  by (cases e) simp_all

section \<open>Construction of the descriptor\<close>

text \<open>
  Claim C3. For every package specifier other than \<open>.\<close>, \<open>NewBuild\<close> fails with
  \<open>ErrWrongPackageTypeForBuild\<close>. It performs no relocation (the result is the same whatever
  the relocation is) and touches no filesystem or process state: the working directory,
  the environment, the behaviour of commands and the commands started are as before; all
  it leaves is the line of level error that reports the error in the log. For the
  specifier \<open>.\<close> the validator accepts, and construction goes on with the relocation and
  the resolution of the output path.
\<close>

theorem invalid_package_spec:
  "(packages \<noteq> ''.'' \<longrightarrow>
      NewBuild mv buildflags packages outputDir w =
        (Inl ErrWrongPackageTypeForBuild,
         w\<lparr>logged := logged w @ [Log ErrorLevel [] [ArgErr ErrWrongPackageTypeForBuild]]\<rparr>))
   \<and> validatePackageForBuild (Build_literal buildflags ''.'')
   \<and> NewBuild mv buildflags ''.'' outputDir w =
        (case mv (Build_literal buildflags ''.'') w of (b1, w1) \<Rightarrow>
           (case determineOutputDir b1 outputDir w1 of
              (Inl err, w2) \<Rightarrow> (Inl err, w2)
            | (Inr dir, w2) \<Rightarrow> (Inr (b1\<lparr>Target := dir\<rparr>), w2)))
   \<and> (packages \<noteq> ''.'' \<longrightarrow>
        \<not> validatePackageForBuild (Build_literal buildflags packages)
      \<and> Getwd (snd (NewBuild mv buildflags packages outputDir w)) = Getwd w
      \<and> Environ (snd (NewBuild mv buildflags packages outputDir w)) = Environ w
      \<and> outcome_of (snd (NewBuild mv buildflags packages outputDir w)) = outcome_of w
      \<and> started (snd (NewBuild mv buildflags packages outputDir w)) = started w)"
  by (simp add: NewBuild_def validatePackageForBuild_def Build_literal_def log_write_def)

theorem invalid_package_spec_witness:
  "''./sub'' \<noteq> ''.'' \<and>
   fst (NewBuild relocate_module ''-v'' ''./sub'' [] module_world) = Inl ErrWrongPackageTypeForBuild \<and>
   started (snd (NewBuild relocate_module ''-v'' ''./sub'' [] module_world)) = [] \<and>
   Getwd (snd (NewBuild relocate_module ''-v'' ''./sub'' [] module_world)) = Inr ''/home/u/my_app'' \<and>
   map_sum id Target (fst (NewBuild relocate_module ''-v'' ''.'' [] module_world))
     = Inr ''/home/u/my_app/my-app''"
proof -
  have ne: "''./sub'' \<noteq> ''.''" by simp
  have j: "filepath_Join [''/home/u/my_app'', underscores_to_hyphens (last_segment ''/home/u/my_app'')]
             = ''/home/u/my_app/my-app''"
    by code_simp
  have d: "determineOutputDir (fst (relocate_module (Build_literal ''-v'' ''.'') module_world)) []
             (snd (relocate_module (Build_literal ''-v'' ''.'') module_world))
           = (Inr ''/home/u/my_app/my-app'', module_world)"
    using determineOutputDir_default
      [of "fst (relocate_module (Build_literal ''-v'' ''.'') module_world)" module_world "''/home/u/my_app''"]
      j
    by (simp add: relocate_module_def module_world_def del: filepath_Join.simps)
  from invalid_package_spec [of "''./sub''" relocate_module "''-v''" "[]" module_world] ne d
  show ?thesis
    by (simp add: case_prod_beta module_world_def)
qed

section \<open>Build and Run\<close>

text \<open>
  Claim C5. One call of \<open>Build\<close> appends \<open>" -o " + Target\<close> to \<open>BuildFlags\<close> once, and
  calls \<open>Start\<close> on one command, whose command line is \<open>go build\<close>, the new
  \<open>BuildFlags\<close> and then \<open>Packages\<close>; a second call on the same descriptor appends the
  flag again. (The witness: flags \<open>-v\<close> and target \<open>/out/app\<close> give
  \<open>go build -v -o /out/app .\<close>)
\<close>

theorem build_appends_output_flag:
  "BuildFlags (fst (snd (Build b w))) = BuildFlags b @ '' -o '' @ Target b
   \<and> started (snd (snd (Build b w))) = started w @ [Build_cmd b w]
   \<and> Args (Build_cmd b w) =
       [''/bin/bash'', ''-c'', ''go build '' @ (BuildFlags b @ '' -o '' @ Target b) @ '' '' @ Packages b]
   \<and> BuildFlags (fst (snd (Build (fst (snd (Build b w))) (snd (snd (Build b w))))))
       = BuildFlags b @ '' -o '' @ Target b @ '' -o '' @ Target b"
  by (simp add: Build_descriptor Build_started Build_cmd_eq)

theorem build_appends_output_flag_witness:
  "BuildFlags (fst (snd (Build legacy_build legacy_world))) = ''-v -o /out/app'' \<and>
   Args (Build_cmd legacy_build legacy_world) = [''/bin/bash'', ''-c'', ''go build -v -o /out/app .''] \<and>
   BuildFlags (fst (snd (Build (fst (snd (Build legacy_build legacy_world)))
                               (snd (snd (Build legacy_build legacy_world))))))
     = ''-v -o /out/app -o /out/app''"
  using build_appends_output_flag [of legacy_build legacy_world]
  by (simp add: legacy_build_def)

text \<open>
  Claim C6. \<open>Build\<close> and \<open>Run\<close> each start one command. When \<open>NewGOPATH\<close> is not empty,
  the environment of that child gives \<open>GOPATH\<close> the value \<open>NewGOPATH\<close> and every other
  variable the value it has in the environment of the calling process; when \<open>NewGOPATH\<close>
  is empty, the child's environment is the environment of the calling process. The
  environment of the calling process is the same after the call as before.
\<close>

theorem child_environment:
  "started (snd (snd (Build b w))) = started w @ [Build_cmd b w]
   \<and> started (snd (Run b w)) = started w @ [Run_cmd b w]
   \<and> (NewGOPATH b \<noteq> [] \<longrightarrow>
        (\<forall>k. env_lookup (child_environ (Build_cmd b w) w) k =
               (if k = ''GOPATH'' then Some (NewGOPATH b) else env_lookup (Environ w) k))
      \<and> (\<forall>k. env_lookup (child_environ (Run_cmd b w) w) k =
               (if k = ''GOPATH'' then Some (NewGOPATH b) else env_lookup (Environ w) k)))
   \<and> (NewGOPATH b = [] \<longrightarrow>
        child_environ (Build_cmd b w) w = Environ w \<and> child_environ (Run_cmd b w) w = Environ w)
   \<and> Environ (snd (snd (Build b w))) = Environ w
   \<and> Environ (snd (Run b w)) = Environ w"
  by (simp add: Build_started Run_started Build_cmd_eq Run_cmd_eq Build_Environ Run_Environ
        child_environ_def env_lookup_append_GOPATH_Cons)

theorem child_environment_witness:
  "NewGOPATH legacy_build \<noteq> [] \<and>
   env_lookup (Environ legacy_world) ''GOPATH'' = Some ''/home/u/go'' \<and>
   env_lookup (child_environ (Build_cmd legacy_build legacy_world) legacy_world) ''GOPATH''
     = Some ''/tmp/goc-build-1'' \<and>
   env_lookup (child_environ (Run_cmd legacy_build legacy_world) legacy_world) ''GOPATH''
     = Some ''/tmp/goc-build-1'' \<and>
   env_lookup (child_environ (Build_cmd legacy_build legacy_world) legacy_world) ''HOME''
     = Some ''/home/u'' \<and>
   NewGOPATH module_build = [] \<and>
   child_environ (Run_cmd module_build module_world) module_world = Environ module_world \<and>
   Environ (snd (Run legacy_build legacy_world)) = Environ legacy_world"
proof -
  have n: "NewGOPATH legacy_build \<noteq> []" "NewGOPATH legacy_build = ''/tmp/goc-build-1''"
    and m: "NewGOPATH module_build = []"
    by (simp_all add: legacy_build_def module_build_def)
  have e: "env_lookup (Environ legacy_world) ''GOPATH'' = Some ''/home/u/go''"
          "env_lookup (Environ legacy_world) ''HOME'' = Some ''/home/u''"
    by (simp_all add: legacy_world_def env_key_def env_value_def)
  from child_environment [of legacy_build legacy_world]
       child_environment [of module_build module_world] n m e
  show ?thesis by simp
qed




section \<open>The agent list\<close>

lemma int64_id: "is_int64 x \<Longrightarrow> int64 x = x"
  by (simp add: int64_def is_int64_def)

lemma getSimpleCmdLine_eq:
  assumes "0 \<le> preLen" and "preLen + 16 < 2 ^ 63" and "width_ok w"
  shows "getSimpleCmdLine preLen cmdLine w = Returns (take (nat (clip_width preLen w)) cmdLine)"
proof (cases "GetSize w")
  case (Inl err)
  have "int64 (16 + preLen) = 16 + preLen" "int64 16 = 16"
    using assms by (simp_all add: int64_id is_int64_def)
  with Inl show ?thesis
    by (simp add: getSimpleCmdLine_def clip_width_def slice_to_def)
next
  case (Inr p)
  obtain width height where p: "p = (width, height)" by (cases p)
  have wd: "is_int64 width" using assms(3) Inr p by (simp add: width_ok_def)
  have a: "int64 (preLen + 16) = preLen + 16" "int64 (16 + preLen) = 16 + preLen" "int64 16 = 16"
    using assms by (simp_all add: int64_id is_int64_def)
  show ?thesis
  proof (cases "width \<le> preLen + 16")
    case True
    with Inr p a show ?thesis
      by (simp add: getSimpleCmdLine_def clip_width_def slice_to_def)
  next
    case False
    then have "is_int64 (width - preLen)" using wd assms by (simp add: is_int64_def)
    then have "int64 (width - preLen) = width - preLen" by (rule int64_id)
    with False Inr p a show ?thesis
      by (simp add: getSimpleCmdLine_def clip_width_def slice_to_def)
  qed
qed

lemma clip_width_ge: "16 \<le> clip_width preLen w"
  by (simp add: clip_width_def split: sum.splits prod.splits)


lemma take_prefix: "prefix (take n xs) xs"
  by (metis append_take_drop_id prefixI)

text \<open>
  Claim C10, as amended. For every command line and every prefix length from 0 to
  \<open>2 ^ 63 - 17\<close> (so that \<open>preLen + 16\<close> does not overflow; every prefix that
  \<open>ListAgents\<close> computes is in that range), with a terminal width that is a value of
  \<open>int\<close> when one is detected, \<open>getSimpleCmdLine\<close> returns (the slice is in bounds), its
  result is a prefix of the command line, and it shows at least the smaller of 16 and
  the length of the command line; when a width of at most \<open>preLen + 16\<close> is detected, it
  shows exactly that many characters: the clip width is 16, not less.
\<close>

theorem clip_is_total:
  assumes "0 \<le> preLen" and "preLen \<le> 2 ^ 63 - 17" and "width_ok w"
  shows "\<exists>s. getSimpleCmdLine preLen cmdLine w = Returns s \<and> prefix s cmdLine
           \<and> min (length cmdLine) 16 \<le> length s
           \<and> ((\<exists>width height. GetSize w = Inr (width, height) \<and> width \<le> preLen + 16)
                \<longrightarrow> length s = min (length cmdLine) 16)"
proof -
  have e: "getSimpleCmdLine preLen cmdLine w = Returns (take (nat (clip_width preLen w)) cmdLine)"
    using assms by (intro getSimpleCmdLine_eq) simp_all
  have "16 \<le> nat (clip_width preLen w)"
    using clip_width_ge [of preLen w] by linarith
  then have m: "min (length cmdLine) 16 \<le> length (take (nat (clip_width preLen w)) cmdLine)"
    by simp
  have f: "length (take (nat (clip_width preLen w)) cmdLine) = min (length cmdLine) 16"
    if "GetSize w = Inr (width, height)" and "width \<le> preLen + 16" for width height
    using that by (simp add: clip_width_def)
  from e m f show ?thesis
    by (auto simp: take_prefix)
qed

theorem clip_is_total_witness:
  "(0::int) \<le> 18 \<and> (18::int) \<le> 2 ^ 63 - 17 \<and> width_ok narrow_terminal \<and>
   GetSize narrow_terminal = Inr (20, 24) \<and> (20::int) \<le> 18 + 16 \<and>
   getSimpleCmdLine 18 ''/bin/foo --flag=verylongvalue'' narrow_terminal = Returns ''/bin/foo --flag='' \<and>
   getSimpleCmdLine 18 ''ls'' narrow_terminal = Returns ''ls''"
proof -
  have h: "(0::int) \<le> 18" "(18::int) \<le> 2 ^ 63 - 17" by simp_all
  have k: "width_ok narrow_terminal" "GetSize narrow_terminal = Inr (20, 24)"
    by (simp_all add: width_ok_def narrow_terminal_def is_int64_def)
  obtain s where s: "getSimpleCmdLine 18 ''/bin/foo --flag=verylongvalue'' narrow_terminal = Returns s"
      "prefix s ''/bin/foo --flag=verylongvalue''" "length s = min (length ''/bin/foo --flag=verylongvalue'') 16"
    using clip_is_total [OF h k(1), of "''/bin/foo --flag=verylongvalue''"] k(2) by auto
  from s(2,3) have "s = ''/bin/foo --flag=''"
    by (auto simp: prefix_def append_eq_append_conv2 Cons_eq_append_conv)
  moreover
  obtain t where t: "getSimpleCmdLine 18 ''ls'' narrow_terminal = Returns t"
      "prefix t ''ls''" "length t = min (length ''ls'') 16"
    using clip_is_total [OF h k(1), of "''ls''"] k(2) by auto
  from t(2,3) have "t = ''ls''"
    by (auto simp: prefix_def append_eq_append_conv2 Cons_eq_append_conv)
  ultimately show ?thesis using s(1) t(1) h k by simp
qed

text \<open>
  Claim C10 as it was stated, for every non-negative prefix length, fails where
  \<open>preLen + 16\<close> overflows: with \<open>preLen = 2 ^ 63 - 1\<close> and a terminal of 80 columns the
  sum wraps to a negative number, the width stays 80, \<open>width - preLen\<close> is negative and the
  slice panics.
\<close>

theorem clip_is_total_counterexample:
  "(0::int) \<le> 2 ^ 63 - 1 \<and> is_int64 (2 ^ 63 - 1) \<and> width_ok wide_terminal \<and>
   getSimpleCmdLine (2 ^ 63 - 1) ''ls'' wide_terminal = Panics"
  by (simp add: getSimpleCmdLine_def wide_terminal_def width_ok_def is_int64_def int64_def slice_to_def)


lemma agent_row_narrow:
  assumes "int (length (Id_agent agent)) + int (length (RemoteIP agent)) + 25 < 2 ^ 63"
    and "width_ok w"
  shows "agent_row False agent w =
           Returns [Id_agent agent, RemoteIP agent,
                    take (nat (clip_width (int (length (Id_agent agent)) + int (length (RemoteIP agent)) + 9) w))
                      (CmdLine agent)]"
proof -
  let ?n = "int (length (Id_agent agent)) + int (length (RemoteIP agent))"
  have "is_int64 ?n" "is_int64 (?n + 9)"
    using assms(1) by (simp_all add: is_int64_def)
  then have p: "int64 (int64 ?n + 9) = ?n + 9"
    by (simp add: int64_id)
  have "getSimpleCmdLine (?n + 9) (CmdLine agent) w
          = Returns (take (nat (clip_width (?n + 9) w)) (CmdLine agent))"
    using assms by (intro getSimpleCmdLine_eq) simp_all
  with p show ?thesis
    by (simp add: agent_row_def)
qed

text \<open>
  Claim C7, as amended. In narrow mode the row of an agent shows a prefix of the command
  line that is no longer than the larger of 16 and the detected width less the prefix
  \<open>len(id) + len(remoteip) + 9\<close>: it fits in the width less the prefix when the detected
  width is more than the prefix plus 16, and has at most 16 characters when the width is
  smaller or is not detected. (The first hypothesis holds of any two strings in memory.)
\<close>

theorem narrow_row_width:
  assumes "int (length (Id_agent agent)) + int (length (RemoteIP agent)) + 25 < 2 ^ 63"
    and "width_ok w"
  shows "\<exists>s. agent_row False agent w = Returns [Id_agent agent, RemoteIP agent, s]
           \<and> prefix s (CmdLine agent)
           \<and> (case GetSize w of
                 Inl err \<Rightarrow> length s \<le> 16
               | Inr (width, height) \<Rightarrow>
                   int (length s)
                     \<le> max 16 (width - (int (length (Id_agent agent)) + int (length (RemoteIP agent)) + 9))
                   \<and> (if int (length (Id_agent agent)) + int (length (RemoteIP agent)) + 9 + 16 < width
                      then int (length s)
                             \<le> width - (int (length (Id_agent agent)) + int (length (RemoteIP agent)) + 9)
                      else length s \<le> 16))"
proof -
  let ?p = "int (length (Id_agent agent)) + int (length (RemoteIP agent)) + 9"
  let ?s = "take (nat (clip_width ?p w)) (CmdLine agent)"
  have r: "agent_row False agent w = Returns [Id_agent agent, RemoteIP agent, ?s]"
    using assms by (rule agent_row_narrow)
  have l: "int (length ?s) \<le> clip_width ?p w"
    using clip_width_ge [of ?p w] by simp
  have b: "case GetSize w of
             Inl err \<Rightarrow> length ?s \<le> 16
           | Inr (width, height) \<Rightarrow>
               int (length ?s) \<le> max 16 (width - ?p)
               \<and> (if ?p + 16 < width then int (length ?s) \<le> width - ?p else length ?s \<le> 16)"
    using l by (auto simp: clip_width_def split: sum.splits prod.splits)
  from r b show ?thesis
    by (intro exI [of _ ?s]) (simp add: take_prefix)
qed

theorem narrow_row_width_witness:
  "int (length (Id_agent example_agent)) + int (length (RemoteIP example_agent)) + 25 < 2 ^ 63 \<and>
   width_ok no_terminal \<and> width_ok narrow_terminal \<and>
   agent_row False example_agent no_terminal = Returns [''1'', ''10.0.0.1'', ''/bin/foo --flag=''] \<and>
   agent_row False example_agent narrow_terminal = Returns [''1'', ''10.0.0.1'', ''/bin/foo --flag='']"
proof -
  have h: "int (length (Id_agent example_agent)) + int (length (RemoteIP example_agent)) + 25 < 2 ^ 63"
    by (simp add: example_agent_def)
  have k: "width_ok no_terminal" "width_ok narrow_terminal"
    by (simp_all add: width_ok_def no_terminal_def narrow_terminal_def is_int64_def)
  have g: "GetSize no_terminal = Inl (os_Error ''inappropriate ioctl for device'')"
          "GetSize narrow_terminal = Inr (20, 24)"
    by (simp_all add: no_terminal_def narrow_terminal_def)
  have c: "CmdLine example_agent = ''/bin/foo --flag=verylongvalue''"
          "Id_agent example_agent = ''1''" "RemoteIP example_agent = ''10.0.0.1''"
    by (simp_all add: example_agent_def)
  have n: "agent_row False example_agent no_terminal \<noteq> Panics"
          "agent_row False example_agent narrow_terminal \<noteq> Panics"
    using narrow_row_width [OF h k(1)] narrow_row_width [OF h k(2)] by auto
  have "agent_row False example_agent no_terminal = Returns [''1'', ''10.0.0.1'', ''/bin/foo --flag='']"
    using n(1) by (simp add: agent_row_def getSimpleCmdLine_def slice_to_def int64_def g c)
  moreover
  have "agent_row False example_agent narrow_terminal = Returns [''1'', ''10.0.0.1'', ''/bin/foo --flag='']"
    using n(2) by (simp add: agent_row_def getSimpleCmdLine_def slice_to_def int64_def g c)
  ultimately show ?thesis using h k by simp
qed

text \<open>
  Claim C7 as it was stated fails: with a detected width of 20 and a prefix of 18 the row
  shows 16 characters of the command, more than the 2 that the width less the prefix
  leaves.
\<close>

theorem narrow_row_width_counterexample:
  "GetSize narrow_terminal = Inr (20, 24) \<and>
   agent_row False example_agent narrow_terminal = Returns [''1'', ''10.0.0.1'', ''/bin/foo --flag='']
   \<and> \<not> int (length ''/bin/foo --flag='')
         \<le> 20 - (int (length (Id_agent example_agent)) + int (length (RemoteIP example_agent)) + 9)"
  by (simp add: agent_row_def getSimpleCmdLine_def slice_to_def int64_def narrow_terminal_def
        example_agent_def)


lemma fst_client_do:
  "fst (client_do c method url contentType body w) =
     (case reply_error (replies w (length (attempts w))) of
        Some err \<Rightarrow> Inl err
      | None \<Rightarrow> (case replies w (length (attempts w)) of ReadBody rb \<Rightarrow> Inr rb | _ \<Rightarrow> Inr []))"
  by (simp add: client_do_def reply_error_def Let_def split: reply.splits)

lemma snd_client_do:
  "snd (client_do c method url contentType body w) = w\<lparr>attempts := attempts w @ [(method, url)]\<rparr>"
  by (simp add: client_do_def Let_def split: reply.splits)

lemma attempts_fatal_write: "attempts (fatal_write f as w) = attempts w"
  by (simp add: fatal_write_def)

lemma attempts_after_decode:
  "attempts (snd (case r of
       (Inl err, w2) \<Rightarrow> (Fatal, fatal_write f [ArgErr err] w2)
     | (Inr body, w2) \<Rightarrow>
         (case ju body of
            Inl err \<Rightarrow> (Fatal, fatal_write g [ArgErr err] w2)
          | Inr items \<Rightarrow>
              (case agent_rows wide items w2 of
                 Returns rs \<Rightarrow> (Returns (t rs), w2)
               | Fatal \<Rightarrow> (Fatal, w2)
               | Panics \<Rightarrow> (Panics, w2))))) = attempts (snd r)"
  by (simp add: attempts_fatal_write split: prod.splits sum.splits result.splits)

text \<open>
  Claim C8, as amended. \<open>ListAgents\<close> calls \<open>do\<close> with the same GET request a second time
  exactly when the first call fails with an error that is \<open>io.EOF\<close> or implements
  \<open>net.Error\<close>, whichever step of \<open>do\<close> returned it (the construction of the request, the
  round trip or the reading of the body); otherwise it calls \<open>do\<close> once. There are never
  more than two calls, and the decoding of the body has no part in it.
\<close>

theorem retry_on_network_error:
  "attempts (snd (ListAgents json_Unmarshal c wide w)) =
     attempts w @
       (case reply_error (replies w (length (attempts w))) of
          Some err \<Rightarrow>
            if isNetworkError err
            then [(''GET'', Host c @ ''/v2/rpcagents''), (''GET'', Host c @ ''/v2/rpcagents'')]
            else [(''GET'', Host c @ ''/v2/rpcagents'')]
        | None \<Rightarrow> [(''GET'', Host c @ ''/v2/rpcagents'')])
   \<and> isNetworkError e = (e = io_EOF \<or> (\<exists>m. e = net_Error m))"
proof -
  have n: "isNetworkError e = (e = io_EOF \<or> (\<exists>m. e = net_Error m))"
    by (cases e) (simp_all add: isNetworkError_def)
  have a: "attempts (snd (ListAgents json_Unmarshal c wide w)) =
     attempts (snd (case fst (client_do c ''GET'' (Host c @ CoverAgentsListAPI) [] None w) of
                  Inl err \<Rightarrow>
                    if isNetworkError err
                    then client_do c ''GET'' (Host c @ CoverAgentsListAPI) [] None
                           (snd (client_do c ''GET'' (Host c @ CoverAgentsListAPI) [] None w))
                    else (fst (client_do c ''GET'' (Host c @ CoverAgentsListAPI) [] None w),
                          snd (client_do c ''GET'' (Host c @ CoverAgentsListAPI) [] None w))
                | Inr body \<Rightarrow>
                    (fst (client_do c ''GET'' (Host c @ CoverAgentsListAPI) [] None w),
                     snd (client_do c ''GET'' (Host c @ CoverAgentsListAPI) [] None w))))"
    unfolding ListAgents_def Let_def
    by (cases "client_do c ''GET'' (Host c @ CoverAgentsListAPI) [] None w")
       (simp only: prod.case fst_conv snd_conv attempts_after_decode)
  show ?thesis
    unfolding a
    by (simp add: n [symmetric] fst_client_do snd_client_do CoverAgentsListAPI_def
          split: option.splits reply.splits)
qed


theorem retry_on_network_error_witness:
  "attempts (snd (ListAgents decode_none example_client False narrow_terminal)) =
     [(''GET'', ''http://127.0.0.1:7777/v2/rpcagents''), (''GET'', ''http://127.0.0.1:7777/v2/rpcagents'')]
   \<and> attempts (snd (ListAgents decode_none example_client False wide_terminal)) =
     [(''GET'', ''http://127.0.0.1:7777/v2/rpcagents'')]
   \<and> attempts (snd (ListAgents decode_fails example_client False no_terminal)) =
     [(''GET'', ''http://127.0.0.1:7777/v2/rpcagents'')]
   \<and> isNetworkError (net_Error ''read: connection reset by peer'')
   \<and> \<not> isNetworkError (os_Error ''unexpected EOF'')"
proof -
  have r: "reply_error (replies narrow_terminal 0)
             = Some (net_Error ''read: connection reset by peer'')"
          "reply_error (replies wide_terminal 0)
             = Some (os_Error ''unexpected EOF'')"
          "reply_error (replies no_terminal 0) = None"
    by (simp_all add: reply_error_def narrow_terminal_def wide_terminal_def no_terminal_def)
  have a: "attempts narrow_terminal = []" "attempts wide_terminal = []" "attempts no_terminal = []"
    by (simp_all add: narrow_terminal_def wide_terminal_def no_terminal_def)
  have h: "Host example_client = ''http://127.0.0.1:7777''"
    by (simp add: example_client_def)
  from retry_on_network_error [of decode_none example_client False narrow_terminal "net_Error ''read: connection reset by peer''"]
       retry_on_network_error [of decode_none example_client False wide_terminal "os_Error ''unexpected EOF''"]
       retry_on_network_error [of decode_fails example_client False no_terminal io_EOF]
  show ?thesis
    by (simp add: r a h)
qed

text \<open>
  Claim C8 as it was stated (no retry for a body-read failure) fails: when the reading of
  the first body fails with a network error, the request is made again.
\<close>

theorem retry_on_network_error_counterexample:
  "replies narrow_terminal 0 = ReadAllFails (net_Error ''read: connection reset by peer'')
   \<and> attempts narrow_terminal = []
   \<and> attempts (snd (ListAgents decode_none example_client False narrow_terminal)) =
       [(''GET'', ''http://127.0.0.1:7777/v2/rpcagents''), (''GET'', ''http://127.0.0.1:7777/v2/rpcagents'')]
   \<and> fst (ListAgents decode_none example_client False narrow_terminal)
       = Returns \<lparr>header = [''ID'', ''REMOTEIP'', ''CMD''], rows = []\<rparr>"
  by (simp add: ListAgents_def client_do_def isNetworkError_def narrow_terminal_def
        example_client_def decode_none_def CoverAgentsListAPI_def Let_def)


end
